theory Spec2Isabelle
  imports Main "HOL-Library.Word" "HOL-Library.Signed_Division"
begin

unbundle bit_operations_syntax

section \<open>The recording session of encoder.cpp\<close>

text \<open>
  The theory embeds the member functions of \<open>Encoder::Session\<close> (encoder.cpp) as HOL
  functions on an explicit state. The state holds the fields of the session object the
  functions read and write, the list of calls made into the codec and container library
  (in the order they are made), and the number of temporary conversion buffers that are
  allocated and not yet freed.

  The library (FFmpeg) is outside the repository. What each of its calls returns is a
  parameter of the model: the record \<open>lib\<close> gives, for one invocation of a member
  function, the value every library call of that invocation returns. A pointer is an
  \<open>option\<close>: \<open>None\<close> is the null pointer. A member function that dereferences a null
  pointer, divides by zero or allocates an array of negative length does not return; the
  model returns \<open>Inl\<close> of the fault instead. A member function that waits for a
  readiness flag which is not set does not return either; the model returns \<open>None\<close>.

  The create and finish functions hold a mutex for their whole body; the frame functions
  poll the readiness flag and take \<open>mxWriteFrame\<close> around the container write. The
  model is sequential: a call runs from its first statement to its return. Log lines (the
  \<open>LOG\<close> macro) are not part of the state.
\<close>

subsection \<open>Types of the library interface\<close>

datatype HRESULT = S_OK | E_FAIL

datatype AVPixelFormat =
  AV_PIX_FMT_NONE | AV_PIX_FMT_YUV420P | AV_PIX_FMT_ARGB | AV_PIX_FMT_NV12
  | AV_PIX_FMT_other nat

datatype AVCodecID = AV_CODEC_ID_FFV1 | AV_CODEC_ID_PCM_S16LE

datatype AVMediaType = AVMEDIA_TYPE_UNKNOWN | AVMEDIA_TYPE_VIDEO | AVMEDIA_TYPE_AUDIO

type_synonym AVSampleFormat = int

type_synonym UINT = "32 word"

datatype FrameFormat = NoFormat | PixFmt AVPixelFormat | SampleFmt AVSampleFormat

record AVRational =
  num :: int
  den :: int

definition av_make_q :: "int \<Rightarrow> int \<Rightarrow> AVRational" where
  "av_make_q n d = \<lparr>num = n, den = d\<rparr>"

definition MF_TIME_BASE :: AVRational where
  "MF_TIME_BASE = \<lparr>num = 1, den = 10000000\<rparr>"

record AVCodecContext =
  cc_codec :: "AVCodecID option"
  cc_codec_id :: "AVCodecID option"
  cc_codec_type :: AVMediaType
  cc_slices :: int
  cc_pix_fmt :: AVPixelFormat
  cc_width :: int
  cc_height :: int
  cc_time_base :: AVRational
  cc_gop_size :: int
  cc_channels :: int
  cc_sample_rate :: int
  cc_bits_per_raw_sample :: int
  cc_bit_rate :: int
  cc_sample_fmt :: AVSampleFormat
  cc_flags :: "32 word"

record AVFrame =
  fr_format :: FrameFormat
  fr_width :: int
  fr_height :: int
  fr_sample_rate :: int
  fr_channels :: int
  fr_nb_samples :: int
  fr_pts :: int

record AVOutputFormat =
  of_video_codec :: "AVCodecID option"
  of_audio_codec :: "AVCodecID option"
  of_flags :: "32 word"

record AVFormatContext =
  fc_oformat :: "AVOutputFormat option"
  fc_video_codec_id :: "AVCodecID option"
  fc_audio_codec_id :: "AVCodecID option"
  fc_pb :: bool

record AVStream =
  st_time_base :: AVRational
  st_codec :: AVMediaType
  st_index :: int

text \<open>The flag constants of the library headers.\<close>

definition AVFMT_GLOBALHEADER :: "32 word" where
  "AVFMT_GLOBALHEADER = 0x0040"

definition CODEC_FLAG_GLOBAL_HEADER :: "32 word" where
  "CODEC_FLAG_GLOBAL_HEADER = 0x00400000"

definition AV_NOPTS_VALUE :: int where
  "AV_NOPTS_VALUE = - (2 ^ 63)"

text \<open>The calls into the library (and the pixel converter), as they appear in the source.\<close>

datatype libcall =
  Call_avcodec_find_encoder AVCodecID
  | Call_avcodec_alloc_context3
  | Call_av_frame_alloc
  | Call_av_guess_format
  | Call_avformat_alloc_output_context2
  | Call_avformat_new_stream AVMediaType
  | Call_avcodec_open2 AVMediaType
  | Call_avio_open
  | Call_avformat_write_header
  | Call_memcpy_s
  | Call_convertNV12toYUV420P
  | Call_av_image_fill_arrays
  | Call_avcodec_fill_audio_frame
  | Call_av_init_packet
  | Call_avcodec_encode_video2
  | Call_avcodec_encode_audio2
  | Call_av_interleaved_write_frame int
  | Call_av_free_packet
  | Call_av_packet_unref
  | Call_av_write_trailer
  | Call_avio_close
  | Call_avcodec_close AVMediaType
  | Call_av_free AVMediaType

text \<open>
  What the library returns during one invocation of a member function. A field named
  \<open>..._ret\<close> is the integer a call returns (negative on failure); an \<open>option\<close> is the
  pointer a call returns. The values \<open>encode_video_ret\<close>, \<open>encode_audio_ret\<close>,
  \<open>interleaved_write_ret\<close>, \<open>write_trailer_ret\<close>, \<open>avio_close_ret\<close> and
  \<open>avcodec_close_ret\<close> are returned by calls whose result the source discards or only
  logs.
\<close>

record lib =
  find_encoder :: "AVCodecID \<Rightarrow> AVCodecID option"
  alloc_context3 :: "AVCodecContext option"
  frame_alloc :: "AVFrame option"
  guess_format :: "AVOutputFormat option"
  alloc_output_context2_ret :: int
  alloc_output_context2_ctx :: "AVFormatContext option"
  new_stream_video :: "AVStream option"
  new_stream_audio :: "AVStream option"
  open2_video_ret :: int
  open2_audio_ret :: int
  avio_open_ret :: int
  avio_open_pb :: bool
  write_header_ret :: int
  image_get_buffer_size :: "AVPixelFormat \<Rightarrow> int \<Rightarrow> int \<Rightarrow> int \<Rightarrow> int"
  image_fill_arrays_ret :: int
  encode_video_ret :: int
  got_packet_video :: int
  samples_get_buffer_size :: "int \<Rightarrow> int \<Rightarrow> AVSampleFormat \<Rightarrow> int \<Rightarrow> int"
  encode_audio_ret :: int
  got_packet_audio :: int
  interleaved_write_ret :: int
  write_trailer_ret :: int
  avio_close_ret :: int
  avcodec_close_ret :: "AVMediaType \<Rightarrow> int"

subsection \<open>The session object\<close>

datatype fault = NullDeref | DivideError | BadArrayNewLength

record state =
  inputPixelFormat :: AVPixelFormat
  outputPixelFormat :: AVPixelFormat
  width :: UINT
  height :: UINT
  videoCodec :: "AVCodecID option"
  videoCodecContext :: "AVCodecContext option"
  videoFrame :: "AVFrame option"
  audioCodec :: "AVCodecID option"
  audioCodecContext :: "AVCodecContext option"
  audioFrame :: "AVFrame option"
  audioBlockAlign :: UINT
  filename :: string
  oformat :: "AVOutputFormat option"
  fmtContext :: "AVFormatContext option"
  videoStream :: "AVStream option"
  audioStream :: "AVStream option"
  isVideoContextCreated :: bool
  isAudioContextCreated :: bool
  isFormatContextCreated :: bool
  isCapturing :: bool
  isVideoFinished :: bool
  isAudioFinished :: bool
  isSessionFinished :: bool
  calls :: "libcall list"
  liveBuffers :: nat

text \<open>
  Modelled from the spec: the macros \<open>RET_IF_NULL\<close>, \<open>RET_IF_FAILED\<close>,
  \<open>RET_IF_FAILED_AV\<close> and \<open>LOG_IF_FAILED_AV\<close> come from logger.h, which is not in the
  source tree. Following section 7 of the specification (a failing step aborts the call;
  a teardown failure is logged only), \<open>RET_IF_NULL\<close> returns its third argument when the
  pointer is null, \<open>RET_IF_FAILED\<close> and \<open>RET_IF_FAILED_AV\<close> return it when the
  integer result is negative, and \<open>LOG_IF_FAILED_AV\<close> evaluates the call and goes on.
\<close>

definition FAILED :: "int \<Rightarrow> bool" where
  "FAILED r = (r < 0)"

text \<open>
  The polling loop \<open>while (!flag) wait_for(lk, 100ms)\<close>. No other thread runs in the
  model, so the flag the loop reads does not change while it waits.
\<close>

partial_function (option) wait_until :: "bool \<Rightarrow> unit option" where
  "wait_until ready = (if ready then Some () else wait_until ready)"

subsection \<open>Stream context creation\<close>

definition createVideoContext ::
  "lib \<Rightarrow> UINT \<Rightarrow> UINT \<Rightarrow> AVPixelFormat \<Rightarrow> UINT \<Rightarrow> UINT \<Rightarrow> AVPixelFormat \<Rightarrow> state
     \<Rightarrow> HRESULT \<times> state" where
  "createVideoContext L w h inFmt fps_num fps_den outFmt s =
    (let videoCodecId = AV_CODEC_ID_FFV1;
         s1 = s\<lparr>inputPixelFormat := inFmt, outputPixelFormat := outFmt,
                videoCodec := find_encoder L videoCodecId,
                calls := calls s @ [Call_avcodec_find_encoder videoCodecId]\<rparr>
     in if videoCodec s1 = None then (E_FAIL, s1)
        else
          (let s2 = s1\<lparr>width := w, height := h, videoCodecContext := alloc_context3 L,
                       calls := calls s1 @ [Call_avcodec_alloc_context3]\<rparr>
           in (case videoCodecContext s2 of
                 None \<Rightarrow> (E_FAIL, s2)
               | Some c \<Rightarrow>
                  (let c' = c\<lparr>cc_slices := 16, cc_codec := videoCodec s2,
                              cc_codec_id := Some videoCodecId, cc_pix_fmt := outFmt,
                              cc_width := sint (width s2), cc_height := sint (height s2),
                              cc_time_base := av_make_q (sint fps_den) (sint fps_num),
                              cc_codec_type := AVMEDIA_TYPE_VIDEO, cc_gop_size := 1\<rparr>;
                       s3 = s2\<lparr>videoCodecContext := Some c', videoFrame := frame_alloc L,
                               calls := calls s2 @ [Call_av_frame_alloc]\<rparr>
                   in (case videoFrame s3 of
                         None \<Rightarrow> (E_FAIL, s3)
                       | Some f \<Rightarrow>
                          (S_OK,
                           s3\<lparr>videoFrame := Some (f\<lparr>fr_format := PixFmt (cc_pix_fmt c'),
                                                     fr_width := sint w, fr_height := sint h\<rparr>),
                              isVideoContextCreated := True\<rparr>))))))"

definition createAudioContext ::
  "lib \<Rightarrow> UINT \<Rightarrow> UINT \<Rightarrow> UINT \<Rightarrow> AVSampleFormat \<Rightarrow> UINT \<Rightarrow> state
     \<Rightarrow> fault + HRESULT \<times> state" where
  "createAudioContext L numChannels sampleRate bitsPerSample sampleFormat align s =
    (let audioCodecId = AV_CODEC_ID_PCM_S16LE;
         s1 = s\<lparr>audioCodec := find_encoder L audioCodecId,
                audioCodecContext := alloc_context3 L,
                calls := calls s @ [Call_avcodec_find_encoder audioCodecId,
                                    Call_avcodec_alloc_context3]\<rparr>
     in (case audioCodecContext s1 of
           None \<Rightarrow> Inl NullDeref
         | Some c \<Rightarrow>
            (let c' = c\<lparr>cc_channels := sint numChannels, cc_sample_rate := sint sampleRate,
                        cc_bits_per_raw_sample := sint bitsPerSample,
                        cc_bit_rate := uint (sampleRate * bitsPerSample * numChannels),
                        cc_sample_fmt := sampleFormat,
                        cc_time_base := \<lparr>num = 1, den = 48000\<rparr>\<rparr>;
                 s2 = s1\<lparr>audioCodecContext := Some c', audioBlockAlign := align,
                         audioFrame := frame_alloc L,
                         calls := calls s1 @ [Call_av_frame_alloc]\<rparr>
             in (case audioFrame s2 of
                   None \<Rightarrow> Inr (E_FAIL, s2)
                 | Some f \<Rightarrow>
                    Inr (S_OK,
                         s2\<lparr>audioFrame := Some (f\<lparr>fr_format := SampleFmt sampleFormat,
                                                   fr_sample_rate := sint sampleRate,
                                                   fr_channels := sint numChannels\<rparr>),
                            isAudioContextCreated := True\<rparr>)))))"

subsection \<open>Container context creation\<close>

text \<open>
  The statements of \<open>createFormatContext\<close> after its two waits. The output format
  object is the one \<open>fmtContext->oformat\<close> points to after line 116, so the flag test of
  line 132 reads the flags of \<open>oformat\<close>. The file name is taken to fit the buffer
  \<open>strcpy_s\<close> copies it into.
\<close>

definition createFormatContext_setup :: "lib \<Rightarrow> string \<Rightarrow> state \<Rightarrow> fault + HRESULT \<times> state" where
  "createFormatContext_setup L fname s =
    (let s1 = s\<lparr>filename := fname, oformat := guess_format L,
                calls := calls s @ [Call_av_guess_format]\<rparr>
     in (case oformat s1 of
           None \<Rightarrow> Inr (E_FAIL, s1)
         | Some fmt \<Rightarrow>
            (let fmt' = fmt\<lparr>of_video_codec := Some AV_CODEC_ID_FFV1,
                            of_audio_codec := Some AV_CODEC_ID_PCM_S16LE\<rparr>;
                 s2 = s1\<lparr>oformat := Some fmt', fmtContext := alloc_output_context2_ctx L,
                         calls := calls s1 @ [Call_avformat_alloc_output_context2]\<rparr>
             in if FAILED (alloc_output_context2_ret L) then Inr (E_FAIL, s2)
                else
                  (case fmtContext s2 of
                     None \<Rightarrow> Inr (E_FAIL, s2)
                   | Some fc \<Rightarrow>
                      (let fc' = fc\<lparr>fc_oformat := oformat s2,
                                    fc_video_codec_id := Some AV_CODEC_ID_FFV1,
                                    fc_audio_codec_id := Some AV_CODEC_ID_PCM_S16LE\<rparr>;
                           s3 = s2\<lparr>fmtContext := Some fc', videoStream := new_stream_video L,
                                   calls := calls s2 @ [Call_avformat_new_stream AVMEDIA_TYPE_VIDEO]\<rparr>
                       in (case videoStream s3 of
                             None \<Rightarrow> Inr (E_FAIL, s3)
                           | Some vs \<Rightarrow>
                              (case videoCodecContext s3 of
                                 None \<Rightarrow> Inl NullDeref
                               | Some vcc \<Rightarrow>
                                  (let s4 = s3\<lparr>videoStream :=
                                                 Some (vs\<lparr>st_time_base := cc_time_base vcc,
                                                          st_codec := AVMEDIA_TYPE_VIDEO,
                                                          st_index := 0\<rparr>),
                                               audioStream := new_stream_audio L,
                                               calls := calls s3 @
                                                 [Call_avformat_new_stream AVMEDIA_TYPE_AUDIO]\<rparr>
                                   in (case audioStream s4 of
                                         None \<Rightarrow> Inr (E_FAIL, s4)
                                       | Some au \<Rightarrow>
                                          (case audioCodecContext s4 of
                                             None \<Rightarrow> Inl NullDeref
                                           | Some acc \<Rightarrow>
                                              (let s5 = s4\<lparr>audioStream :=
                                                     Some (au\<lparr>st_time_base :=
                                                                av_make_q 1 (cc_sample_rate acc),
                                                              st_codec := AVMEDIA_TYPE_AUDIO,
                                                              st_index := 1\<rparr>)\<rparr>;
                                                   s6 = (if of_flags fmt' AND AVFMT_GLOBALHEADER \<noteq> 0
                                                         then s5\<lparr>videoCodecContext :=
                                                                  Some (vcc\<lparr>cc_flags := cc_flags vcc
                                                                     OR CODEC_FLAG_GLOBAL_HEADER\<rparr>),
                                                                 audioCodecContext :=
                                                                  Some (acc\<lparr>cc_flags := cc_flags acc
                                                                     OR CODEC_FLAG_GLOBAL_HEADER\<rparr>)\<rparr>
                                                         else s5);
                                                   s7 = s6\<lparr>calls := calls s6 @
                                                          [Call_avcodec_open2 AVMEDIA_TYPE_VIDEO]\<rparr>
                                               in if FAILED (open2_video_ret L) then Inr (E_FAIL, s7)
                                                  else
                                                   (let s8 = s7\<lparr>calls := calls s7 @
                                                          [Call_avcodec_open2 AVMEDIA_TYPE_AUDIO]\<rparr>
                                                    in if FAILED (open2_audio_ret L)
                                                       then Inr (E_FAIL, s8)
                                                       else
                                                        (let s9 = s8\<lparr>fmtContext :=
                                                                Some (fc'\<lparr>fc_pb := avio_open_pb L\<rparr>),
                                                                calls := calls s8 @ [Call_avio_open]\<rparr>
                                                         in if FAILED (avio_open_ret L)
                                                            then Inr (E_FAIL, s9)
                                                            else if \<not> avio_open_pb L
                                                            then Inr (E_FAIL, s9)
                                                            else
                                                             (let s10 = s9\<lparr>calls := calls s9 @
                                                                   [Call_avformat_write_header]\<rparr>
                                                              in if FAILED (write_header_ret L)
                                                                 then Inr (E_FAIL, s10)
                                                                 else Inr (S_OK,
                                                                   s10\<lparr>isCapturing := True,
                                                                     isFormatContextCreated := True\<rparr>
                                                                   )))))))))))))))"

definition createFormatContext :: "lib \<Rightarrow> string \<Rightarrow> state \<Rightarrow> (fault + HRESULT \<times> state) option" where
  "createFormatContext L fname s =
    (case wait_until (isVideoContextCreated s) of
       None \<Rightarrow> None
     | Some _ \<Rightarrow>
        (case wait_until (isAudioContextCreated s) of
           None \<Rightarrow> None
         | Some _ \<Rightarrow> Some (createFormatContext_setup L fname s)))"

subsection \<open>Timestamp rescaling\<close>

text \<open>
  Modelled from the spec: \<open>av_rescale_q\<close> is a function of the library and is not in the
  source tree. Section 4.5 of the specification gives its semantics: exact rational
  rescaling, multiply then divide on unbounded intermediate values, rounding to the
  nearest integer with ties away from zero. \<open>av_rescale_q a bq cq\<close> converts the
  timestamp \<open>a\<close> from the time base \<open>bq\<close> to the time base \<open>cq\<close>, that is, it
  multiplies by \<open>b = num bq * den cq\<close> and divides by \<open>c = num cq * den bq\<close>.
\<close>

definition av_rescale_near :: "int \<Rightarrow> int \<Rightarrow> int \<Rightarrow> int" where
  "av_rescale_near a b c = sgn a * ((\<bar>a\<bar> * b + c div 2) div c)"

definition av_rescale_q :: "int \<Rightarrow> AVRational \<Rightarrow> AVRational \<Rightarrow> int" where
  "av_rescale_q a bq cq = av_rescale_near a (num bq * den cq) (num cq * den bq)"

subsection \<open>Frame submission\<close>

text \<open>
  \<open>new BYTE[length]\<close> adds one live buffer and \<open>delete[] pDataTarget\<close> removes one. A
  negative \<open>length\<close> (the model's \<open>len\<close>) makes the array allocation throw.
\<close>

definition writeVideoFrame_frame ::
  "lib \<Rightarrow> 8 word list \<Rightarrow> int \<Rightarrow> int \<Rightarrow> state \<Rightarrow> fault + HRESULT \<times> state" where
  "writeVideoFrame_frame L pData len sampleTime s =
    (let bufferLength =
           image_get_buffer_size L (inputPixelFormat s) (sint (width s)) (sint (height s)) 1
     in if len \<noteq> bufferLength then Inr (E_FAIL, s)
        else if len < 0 then Inl BadArrayNewLength
        else
         (let s1 = s\<lparr>liveBuffers := liveBuffers s + 1\<rparr>
          in (case (case inputPixelFormat s1 of
                      AV_PIX_FMT_ARGB \<Rightarrow> Some Call_memcpy_s
                    | AV_PIX_FMT_YUV420P \<Rightarrow> Some Call_memcpy_s
                    | AV_PIX_FMT_NV12 \<Rightarrow> Some Call_convertNV12toYUV420P
                    | _ \<Rightarrow> None) of
                None \<Rightarrow> Inr (E_FAIL, s1\<lparr>liveBuffers := liveBuffers s1 - 1\<rparr>)
              | Some copy \<Rightarrow>
                 (case videoFrame s1 of
                    None \<Rightarrow> Inl NullDeref
                  | Some f \<Rightarrow>
                     (let s2 = s1\<lparr>calls := calls s1 @ [copy, Call_av_image_fill_arrays]\<rparr>
                      in if FAILED (image_fill_arrays_ret L) then Inr (E_FAIL, s2)
                         else
                          (case videoStream s2 of
                             None \<Rightarrow> Inl NullDeref
                           | Some vs \<Rightarrow>
                              (let s3 = s2\<lparr>videoFrame :=
                                             Some (f\<lparr>fr_pts := av_rescale_q sampleTime
                                                       MF_TIME_BASE (st_time_base vs)\<rparr>),
                                           calls := calls s2 @
                                             [Call_av_init_packet, Call_avcodec_encode_video2]\<rparr>;
                                   s4 = (if got_packet_video L \<noteq> 0
                                         then s3\<lparr>calls := calls s3 @
                                                [Call_av_interleaved_write_frame (st_index vs)]\<rparr>
                                         else s3);
                                   s5 = s4\<lparr>liveBuffers := liveBuffers s4 - 1,
                                           calls := calls s4 @
                                             [Call_av_free_packet, Call_av_packet_unref]\<rparr>
                               in Inr (S_OK, s5))))))))"

definition writeVideoFrame ::
  "lib \<Rightarrow> 8 word list \<Rightarrow> int \<Rightarrow> int \<Rightarrow> state \<Rightarrow> (fault + HRESULT \<times> state) option" where
  "writeVideoFrame L pData len sampleTime s =
    (case wait_until (isFormatContextCreated s) of
       None \<Rightarrow> None
     | Some _ \<Rightarrow> Some (writeVideoFrame_frame L pData len sampleTime s))"

text \<open>
  The division of line 218 is the truncating division of two 32-bit integers. It traps
  when the divisor is zero and when it overflows (\<open>INT_MIN / -1\<close>).
\<close>

definition writeAudioFrame_frame ::
  "lib \<Rightarrow> 8 word list \<Rightarrow> int \<Rightarrow> int \<Rightarrow> state \<Rightarrow> fault + HRESULT \<times> state" where
  "writeAudioFrame_frame L pData len sampleTime s =
    (case audioCodecContext s of
       None \<Rightarrow> Inl NullDeref
     | Some c \<Rightarrow>
        (let d = samples_get_buffer_size L (cc_channels c) 1 (cc_sample_fmt c)
                   (sint (audioBlockAlign s))
         in if d = 0 \<or> (len = - (2 ^ 31) \<and> d = - 1) then Inl DivideError
            else
             (let numSamples = len sdiv d
              in (case audioFrame s of
                    None \<Rightarrow> Inl NullDeref
                  | Some f \<Rightarrow>
                     (let s1 = s\<lparr>audioFrame :=
                                   Some (f\<lparr>fr_nb_samples := numSamples,
                                           fr_format := SampleFmt (cc_sample_fmt c),
                                           fr_pts := AV_NOPTS_VALUE\<rparr>),
                                 calls := calls s @
                                   [Call_avcodec_fill_audio_frame, Call_av_init_packet,
                                    Call_avcodec_encode_audio2]\<rparr>
                      in if got_packet_audio L \<noteq> 0
                         then
                          (case audioStream s1 of
                             None \<Rightarrow> Inl NullDeref
                           | Some au \<Rightarrow>
                              Inr (S_OK,
                                   s1\<lparr>calls := calls s1 @
                                        [Call_av_interleaved_write_frame (st_index au),
                                         Call_av_free_packet, Call_av_packet_unref]\<rparr>))
                         else Inr (S_OK,
                                   s1\<lparr>calls := calls s1 @
                                        [Call_av_free_packet, Call_av_packet_unref]\<rparr>))))))"

definition writeAudioFrame ::
  "lib \<Rightarrow> 8 word list \<Rightarrow> int \<Rightarrow> int \<Rightarrow> state \<Rightarrow> (fault + HRESULT \<times> state) option" where
  "writeAudioFrame L pData len sampleTime s =
    (case wait_until (isFormatContextCreated s) of
       None \<Rightarrow> None
     | Some _ \<Rightarrow> Some (writeAudioFrame_frame L pData len sampleTime s))"

subsection \<open>Finish and teardown\<close>

text \<open>
  \<open>LOG_IF_FAILED_AV\<close> logs a negative result and goes on, so no result of a teardown
  call is read. \<open>this->fmtContext->pb\<close> dereferences the container context.
\<close>

definition endSession :: "lib \<Rightarrow> state \<Rightarrow> fault + HRESULT \<times> state" where
  "endSession L s =
    (if isVideoFinished s \<and> isAudioFinished s
     then
      (let s1 = s\<lparr>isCapturing := False, calls := calls s @ [Call_av_write_trailer]\<rparr>
       in (case fmtContext s1 of
             None \<Rightarrow> Inl NullDeref
           | Some fc \<Rightarrow>
              Inr (S_OK,
                   s1\<lparr>calls := calls s1 @
                        [Call_avio_close, Call_avcodec_close AVMEDIA_TYPE_VIDEO,
                         Call_avcodec_close AVMEDIA_TYPE_AUDIO, Call_av_free AVMEDIA_TYPE_VIDEO,
                         Call_av_free AVMEDIA_TYPE_AUDIO],
                      isSessionFinished := True\<rparr>)))
     else Inr (S_OK, s))"

definition finishVideo :: "lib \<Rightarrow> state \<Rightarrow> fault + HRESULT \<times> state" where
  "finishVideo L s =
    (case endSession L (s\<lparr>isVideoFinished := True\<rparr>) of
       Inl e \<Rightarrow> Inl e
     | Inr (r, s') \<Rightarrow> Inr (S_OK, s'))"

definition finishAudio :: "lib \<Rightarrow> state \<Rightarrow> fault + HRESULT \<times> state" where
  "finishAudio L s =
    (case endSession L (s\<lparr>isAudioFinished := True\<rparr>) of
       Inl e \<Rightarrow> Inl e
     | Inr (r, s') \<Rightarrow> Inr (S_OK, s'))"

subsection \<open>Schedules of the two finish calls\<close>

text \<open>
  \<open>finishVideo\<close> and \<open>finishAudio\<close> hold the mutex \<open>mxFinish\<close> from their first
  statement to their return, so two concurrent calls run one after the other, in one of
  the two orders. A schedule names which call takes the mutex first.
\<close>

datatype finish_call = FinishVideo | FinishAudio

fun run_finish :: "lib \<Rightarrow> finish_call \<Rightarrow> state \<Rightarrow> fault + HRESULT \<times> state" where
  "run_finish L FinishVideo s = finishVideo L s"
| "run_finish L FinishAudio s = finishAudio L s"

text \<open>The library calls of the teardown block of \<open>endSession\<close>, in source order.\<close>

definition teardown_calls :: "libcall list" where
  "teardown_calls =
     [Call_av_write_trailer, Call_avio_close, Call_avcodec_close AVMEDIA_TYPE_VIDEO,
      Call_avcodec_close AVMEDIA_TYPE_AUDIO, Call_av_free AVMEDIA_TYPE_VIDEO,
      Call_av_free AVMEDIA_TYPE_AUDIO]"

subsection \<open>Concrete sessions and library behaviours\<close>

text \<open>
  Modelled from the spec: the header encoder.h, with the member initialisers of
  \<open>Session\<close>, is not in the source tree. Section 3 of the specification says the
  session is constructed empty: every flag is false and every pointer is null.
\<close>

definition new_session :: state where
  "new_session =
     \<lparr>inputPixelFormat = AV_PIX_FMT_NONE, outputPixelFormat = AV_PIX_FMT_NONE,
      width = 0, height = 0,
      videoCodec = None, videoCodecContext = None, videoFrame = None,
      audioCodec = None, audioCodecContext = None, audioFrame = None,
      audioBlockAlign = 0, filename = [], oformat = None, fmtContext = None,
      videoStream = None, audioStream = None,
      isVideoContextCreated = False, isAudioContextCreated = False,
      isFormatContextCreated = False, isCapturing = False,
      isVideoFinished = False, isAudioFinished = False, isSessionFinished = False,
      calls = [], liveBuffers = 0\<rparr>"

text \<open>Freshly allocated library objects, before the session writes their fields.\<close>

definition blank_context :: AVCodecContext where
  "blank_context =
     \<lparr>cc_codec = None, cc_codec_id = None, cc_codec_type = AVMEDIA_TYPE_UNKNOWN,
      cc_slices = 0, cc_pix_fmt = AV_PIX_FMT_NONE, cc_width = 0, cc_height = 0,
      cc_time_base = \<lparr>num = 0, den = 1\<rparr>, cc_gop_size = 12, cc_channels = 0,
      cc_sample_rate = 0, cc_bits_per_raw_sample = 0, cc_bit_rate = 0,
      cc_sample_fmt = - 1, cc_flags = 0\<rparr>"

definition blank_frame :: AVFrame where
  "blank_frame =
     \<lparr>fr_format = NoFormat, fr_width = 0, fr_height = 0, fr_sample_rate = 0,
      fr_channels = 0, fr_nb_samples = 0, fr_pts = AV_NOPTS_VALUE\<rparr>"

definition blank_oformat :: AVOutputFormat where
  "blank_oformat = \<lparr>of_video_codec = None, of_audio_codec = None, of_flags = 0\<rparr>"

definition blank_fmtContext :: AVFormatContext where
  "blank_fmtContext =
     \<lparr>fc_oformat = None, fc_video_codec_id = None, fc_audio_codec_id = None, fc_pb = False\<rparr>"

definition blank_stream :: AVStream where
  "blank_stream =
     \<lparr>st_time_base = \<lparr>num = 0, den = 1\<rparr>, st_codec = AVMEDIA_TYPE_UNKNOWN, st_index = 0\<rparr>"

text \<open>
  A library in which every call succeeds. The two size functions follow the documented
  contract of the library: four bytes per pixel of ARGB, twelve bits per pixel of YUV420P
  and NV12, two bytes per sample and channel of 16-bit audio, and the error code
  \<open>AVERROR(EINVAL) = -22\<close> for an unknown pixel format or a channel or sample count
  that is not positive.
\<close>

definition good_lib :: lib where
  "good_lib =
     \<lparr>find_encoder = Some,
      alloc_context3 = Some blank_context,
      frame_alloc = Some blank_frame,
      guess_format = Some blank_oformat,
      alloc_output_context2_ret = 0,
      alloc_output_context2_ctx = Some blank_fmtContext,
      new_stream_video = Some blank_stream,
      new_stream_audio = Some blank_stream,
      open2_video_ret = 0,
      open2_audio_ret = 0,
      avio_open_ret = 0,
      avio_open_pb = True,
      write_header_ret = 0,
      image_get_buffer_size =
        (\<lambda>fmt w h align.
           case fmt of
             AV_PIX_FMT_ARGB \<Rightarrow> w * h * 4
           | AV_PIX_FMT_YUV420P \<Rightarrow> w * h * 3 div 2
           | AV_PIX_FMT_NV12 \<Rightarrow> w * h * 3 div 2
           | _ \<Rightarrow> - 22),
      image_fill_arrays_ret = 0,
      encode_video_ret = 0,
      got_packet_video = 1,
      samples_get_buffer_size =
        (\<lambda>channels nb_samples fmt align.
           if channels \<le> 0 \<or> nb_samples \<le> 0 then - 22 else channels * nb_samples * 2),
      encode_audio_ret = 0,
      got_packet_audio = 1,
      interleaved_write_ret = 0,
      write_trailer_ret = 0,
      avio_close_ret = 0,
      avcodec_close_ret = (\<lambda>_. 0)\<rparr>"

text \<open>
  The three setup calls on a new session, with the library \<open>good_lib\<close>: a 4 by 2 video
  with packed ARGB input at 30000/1001 frames per second, and two channels of 16-bit
  audio at 48000 Hz. \<open>video_session\<close> is the session after \<open>createVideoContext\<close>,
  \<open>streams_session\<close> after \<open>createAudioContext\<close> as well, \<open>recording_session\<close> after
  \<open>createFormatContext\<close>.
\<close>

definition video_session :: state where
  "video_session =
     new_session
       \<lparr>inputPixelFormat := AV_PIX_FMT_ARGB, outputPixelFormat := AV_PIX_FMT_YUV420P,
        width := 4, height := 2, videoCodec := Some AV_CODEC_ID_FFV1,
        videoCodecContext :=
          Some (blank_context
                  \<lparr>cc_codec := Some AV_CODEC_ID_FFV1, cc_codec_id := Some AV_CODEC_ID_FFV1,
                   cc_codec_type := AVMEDIA_TYPE_VIDEO, cc_slices := 16,
                   cc_pix_fmt := AV_PIX_FMT_YUV420P, cc_width := 4, cc_height := 2,
                   cc_time_base := \<lparr>num = 1001, den = 30000\<rparr>, cc_gop_size := 1\<rparr>),
        videoFrame :=
          Some (blank_frame\<lparr>fr_format := PixFmt AV_PIX_FMT_YUV420P, fr_width := 4,
                              fr_height := 2\<rparr>),
        isVideoContextCreated := True,
        calls := [Call_avcodec_find_encoder AV_CODEC_ID_FFV1, Call_avcodec_alloc_context3,
                  Call_av_frame_alloc]\<rparr>"

definition streams_session :: state where
  "streams_session =
     video_session
       \<lparr>audioCodec := Some AV_CODEC_ID_PCM_S16LE,
        audioCodecContext :=
          Some (blank_context
                  \<lparr>cc_time_base := \<lparr>num = 1, den = 48000\<rparr>, cc_channels := 2,
                   cc_sample_rate := 48000, cc_bits_per_raw_sample := 16,
                   cc_bit_rate := 1536000, cc_sample_fmt := 1\<rparr>),
        audioFrame :=
          Some (blank_frame\<lparr>fr_format := SampleFmt 1, fr_sample_rate := 48000,
                              fr_channels := 2\<rparr>),
        audioBlockAlign := 4, isAudioContextCreated := True,
        calls := calls video_session @
                 [Call_avcodec_find_encoder AV_CODEC_ID_PCM_S16LE, Call_avcodec_alloc_context3,
                  Call_av_frame_alloc]\<rparr>"

definition recording_session :: state where
  "recording_session =
     streams_session
       \<lparr>filename := ''out.mkv'',
        oformat := Some (blank_oformat\<lparr>of_video_codec := Some AV_CODEC_ID_FFV1,
                                         of_audio_codec := Some AV_CODEC_ID_PCM_S16LE\<rparr>),
        fmtContext :=
          Some (blank_fmtContext
                  \<lparr>fc_oformat := Some (blank_oformat
                                          \<lparr>of_video_codec := Some AV_CODEC_ID_FFV1,
                                           of_audio_codec := Some AV_CODEC_ID_PCM_S16LE\<rparr>),
                   fc_video_codec_id := Some AV_CODEC_ID_FFV1,
                   fc_audio_codec_id := Some AV_CODEC_ID_PCM_S16LE, fc_pb := True\<rparr>),
        videoStream :=
          Some (blank_stream\<lparr>st_time_base := \<lparr>num = 1001, den = 30000\<rparr>,
                               st_codec := AVMEDIA_TYPE_VIDEO, st_index := 0\<rparr>),
        audioStream :=
          Some (blank_stream\<lparr>st_time_base := \<lparr>num = 1, den = 48000\<rparr>,
                               st_codec := AVMEDIA_TYPE_AUDIO, st_index := 1\<rparr>),
        isFormatContextCreated := True, isCapturing := True,
        calls := calls streams_session @
                 [Call_av_guess_format, Call_avformat_alloc_output_context2,
                  Call_avformat_new_stream AVMEDIA_TYPE_VIDEO,
                  Call_avformat_new_stream AVMEDIA_TYPE_AUDIO,
                  Call_avcodec_open2 AVMEDIA_TYPE_VIDEO, Call_avcodec_open2 AVMEDIA_TYPE_AUDIO,
                  Call_avio_open, Call_avformat_write_header]\<rparr>"

text \<open>The recording session after both finish calls have run.\<close>

definition closed_session :: state where
  "closed_session =
     recording_session
       \<lparr>isCapturing := False, isVideoFinished := True, isAudioFinished := True,
        isSessionFinished := True, calls := calls recording_session @ teardown_calls\<rparr>"

text \<open>
  The frame interval of the frame rate \<open>fps_num / fps_den\<close>: the time of one frame,
  \<open>fps_den / fps_num\<close> seconds, as a rational of the two numbers the caller passes (read
  as C integers, as \<open>av_make_q\<close> takes them).
\<close>

definition frame_interval :: "UINT \<Rightarrow> UINT \<Rightarrow> AVRational" where
  "frame_interval fps_num fps_den = \<lparr>num = sint fps_den, den = sint fps_num\<rparr>"

text \<open>
  The conditions under which a frame call gets as far as its encoder. The session has
  been set up: the container is ready and the objects the frame calls dereference exist.
  For video, the three checks of \<open>writeVideoFrame\<close> pass: the length is the buffer size
  (and is not negative, so that the conversion buffer can be allocated), the input pixel
  format is one of the three the switch names, the frame is filled. For audio there is no
  check; the division of line 218 is defined.
\<close>

definition session_set_up :: "state \<Rightarrow> bool" where
  "session_set_up s \<longleftrightarrow>
     isFormatContextCreated s \<and> videoFrame s \<noteq> None \<and> videoStream s \<noteq> None \<and>
     audioCodecContext s \<noteq> None \<and> audioFrame s \<noteq> None \<and> audioStream s \<noteq> None"

definition video_checks_pass :: "lib \<Rightarrow> int \<Rightarrow> state \<Rightarrow> bool" where
  "video_checks_pass L len s \<longleftrightarrow>
     len = image_get_buffer_size L (inputPixelFormat s) (sint (width s)) (sint (height s)) 1 \<and>
     0 \<le> len \<and>
     inputPixelFormat s \<in> {AV_PIX_FMT_ARGB, AV_PIX_FMT_YUV420P, AV_PIX_FMT_NV12} \<and>
     \<not> FAILED (image_fill_arrays_ret L)"

definition audio_divisor :: "lib \<Rightarrow> state \<Rightarrow> int" where
  "audio_divisor L s =
     (case audioCodecContext s of
        None \<Rightarrow> 0
      | Some c \<Rightarrow> samples_get_buffer_size L (cc_channels c) 1 (cc_sample_fmt c)
                    (sint (audioBlockAlign s)))"

definition audio_division_defined :: "lib \<Rightarrow> int \<Rightarrow> state \<Rightarrow> bool" where
  "audio_division_defined L len s \<longleftrightarrow>
     audio_divisor L s \<noteq> 0 \<and> (len \<noteq> - (2 ^ 31) \<or> audio_divisor L s \<noteq> - 1)"

text \<open>
  The recording session when \<open>createAudioContext\<close> was called with a channel count of 0
  instead of 2.
\<close>

definition zero_channel_streams :: state where
  "zero_channel_streams =
     streams_session
       \<lparr>audioCodecContext :=
          Some (blank_context
                  \<lparr>cc_time_base := \<lparr>num = 1, den = 48000\<rparr>, cc_channels := 0,
                   cc_sample_rate := 48000, cc_bits_per_raw_sample := 16,
                   cc_bit_rate := 0, cc_sample_fmt := 1\<rparr>),
        audioFrame :=
          Some (blank_frame\<lparr>fr_format := SampleFmt 1, fr_sample_rate := 48000,
                              fr_channels := 0\<rparr>)\<rparr>"

definition zero_channel_session :: state where
  "zero_channel_session =
     recording_session
       \<lparr>audioCodecContext := audioCodecContext zero_channel_streams,
        audioFrame := audioFrame zero_channel_streams\<rparr>"

text \<open>
  The setup steps of \<open>createFormatContext\<close> in source order, the library call each one
  makes, and when each one succeeds: a pointer result is not null, an integer result is
  not negative. Allocating the container context and opening the output file are each
  followed by a null test of the pointer the call fills in.
\<close>

datatype setup_step =
  GuessFormat | AllocOutputContext | NewVideoStream | NewAudioStream
  | OpenVideoCodec | OpenAudioCodec | OpenOutputFile | WriteHeader

fun step_call :: "setup_step \<Rightarrow> libcall" where
  "step_call GuessFormat = Call_av_guess_format"
| "step_call AllocOutputContext = Call_avformat_alloc_output_context2"
| "step_call NewVideoStream = Call_avformat_new_stream AVMEDIA_TYPE_VIDEO"
| "step_call NewAudioStream = Call_avformat_new_stream AVMEDIA_TYPE_AUDIO"
| "step_call OpenVideoCodec = Call_avcodec_open2 AVMEDIA_TYPE_VIDEO"
| "step_call OpenAudioCodec = Call_avcodec_open2 AVMEDIA_TYPE_AUDIO"
| "step_call OpenOutputFile = Call_avio_open"
| "step_call WriteHeader = Call_avformat_write_header"

fun step_ok :: "lib \<Rightarrow> setup_step \<Rightarrow> bool" where
  "step_ok L GuessFormat = (guess_format L \<noteq> None)"
| "step_ok L AllocOutputContext =
     (\<not> FAILED (alloc_output_context2_ret L) \<and> alloc_output_context2_ctx L \<noteq> None)"
| "step_ok L NewVideoStream = (new_stream_video L \<noteq> None)"
| "step_ok L NewAudioStream = (new_stream_audio L \<noteq> None)"
| "step_ok L OpenVideoCodec = (\<not> FAILED (open2_video_ret L))"
| "step_ok L OpenAudioCodec = (\<not> FAILED (open2_audio_ret L))"
| "step_ok L OpenOutputFile = (\<not> FAILED (avio_open_ret L) \<and> avio_open_pb L)"
| "step_ok L WriteHeader = (\<not> FAILED (write_header_ret L))"

definition setup_steps :: "setup_step list" where
  "setup_steps =
     [GuessFormat, AllocOutputContext, NewVideoStream, NewAudioStream,
      OpenVideoCodec, OpenAudioCodec, OpenOutputFile, WriteHeader]"

definition all_steps_ok :: "lib \<Rightarrow> bool" where
  "all_steps_ok L = list_all (step_ok L) setup_steps"

text \<open>The steps up to and including the first one that fails; all of them when none fails.\<close>

definition steps_until_failure :: "lib \<Rightarrow> setup_step list" where
  "steps_until_failure L =
     take (Suc (length (takeWhile (step_ok L) setup_steps))) setup_steps"

text \<open>
  A timestamp in 100-nanosecond ticks, rescaled to the time base \<open>tb\<close> as line 185 does
  and rescaled back to ticks.
\<close>

definition rescale_round_trip :: "AVRational \<Rightarrow> int \<Rightarrow> int" where
  "rescale_round_trip tb t =
     av_rescale_q (av_rescale_q t MF_TIME_BASE tb) tb MF_TIME_BASE"

section \<open>Properties\<close>

subsection \<open>Auxiliary facts\<close>

lemma wait_until_True: "wait_until True = Some ()"
  by (simp add: wait_until.simps [of True])

lemma wait_until_Some: "wait_until b = Some u \<Longrightarrow> b"
  by (rule wait_until.raw_induct [where P = "\<lambda>b u. b"]) (auto split: if_splits)

lemma wait_until_False: "wait_until False = None"
  using wait_until_Some [of False] by (cases "wait_until False") auto

lemma wait_until_eq: "wait_until b = (if b then Some () else None)"
  by (simp add: wait_until_True wait_until_False)

lemma endSession_gate_closed:
  "\<not> (isVideoFinished s \<and> isAudioFinished s) \<Longrightarrow> endSession L s = Inr (S_OK, s)"
  by (auto simp: endSession_def)

lemma endSession_gate_open:
  "isVideoFinished s \<Longrightarrow> isAudioFinished s \<Longrightarrow> fmtContext s = Some fc \<Longrightarrow>
   endSession L s =
     Inr (S_OK, s\<lparr>isCapturing := False, isSessionFinished := True,
                   calls := calls s @ teardown_calls\<rparr>)"
  by (simp add: endSession_def teardown_calls_def)

subsection \<open>The sample sessions are reached by the setup calls\<close>

lemma reach_video_session:
  "createVideoContext good_lib 4 2 AV_PIX_FMT_ARGB 30000 1001 AV_PIX_FMT_YUV420P new_session
     = (S_OK, video_session)"
  by (simp add: createVideoContext_def good_lib_def new_session_def video_session_def
      blank_context_def blank_frame_def av_make_q_def Let_def)

lemma reach_streams_session:
  "createAudioContext good_lib 2 48000 16 1 4 video_session = Inr (S_OK, streams_session)"
  by (simp add: createAudioContext_def good_lib_def new_session_def video_session_def
      streams_session_def blank_context_def blank_frame_def Let_def)

lemma reach_recording_session:
  "createFormatContext good_lib ''out.mkv'' streams_session = Some (Inr (S_OK, recording_session))"
  by (simp add: createFormatContext_def createFormatContext_setup_def wait_until_eq
      good_lib_def new_session_def video_session_def
      streams_session_def recording_session_def blank_context_def blank_frame_def
      blank_oformat_def blank_fmtContext_def blank_stream_def av_make_q_def FAILED_def
      AVFMT_GLOBALHEADER_def Let_def)

lemma reach_closed_session:
  "finishVideo good_lib recording_session
     = Inr (S_OK, recording_session\<lparr>isVideoFinished := True\<rparr>)"
  "finishAudio good_lib (recording_session\<lparr>isVideoFinished := True\<rparr>)
     = Inr (S_OK, closed_session)"
  by (simp_all add: finishVideo_def finishAudio_def endSession_def closed_session_def
      teardown_calls_def recording_session_def streams_session_def video_session_def
      new_session_def)

lemma recording_session_facts:
  "isFormatContextCreated recording_session"
  "inputPixelFormat recording_session = AV_PIX_FMT_ARGB"
  "width recording_session = 4" "height recording_session = 2"
  "liveBuffers recording_session = 0"
  by (simp_all add: recording_session_def streams_session_def video_session_def new_session_def)

subsection \<open>What a successful setup call leaves\<close>

lemma createVideoContext_S_OK:
  assumes "createVideoContext L w h inFmt fps_num fps_den outFmt s = (S_OK, s1)"
  shows "\<exists>c. videoCodecContext s1 = Some c \<and>
              cc_time_base c = av_make_q (sint fps_den) (sint fps_num)"
  using assms
  by (auto simp: createVideoContext_def Let_def split: if_splits option.splits)

lemma createFormatContext_setup_S_OK_stream:
  assumes "createFormatContext_setup L fname s = Inr (S_OK, s')"
  shows "\<exists>c vs. videoCodecContext s = Some c \<and> videoStream s' = Some vs \<and>
                st_time_base vs = cc_time_base c"
  using assms
  by (auto simp: createFormatContext_setup_def Let_def split: if_splits option.splits)

lemma createFormatContext_Some:
  "createFormatContext L fname s = Some r \<Longrightarrow> r = createFormatContext_setup L fname s"
  by (auto simp: createFormatContext_def wait_until_eq split: if_splits)

subsection \<open>Frame calls on a session that has been set up\<close>

lemma writeVideoFrame_frame_S_OK:
  assumes "session_set_up s" and "video_checks_pass L len s"
  shows "\<exists>s'. writeVideoFrame_frame L pData len sampleTime s = Inr (S_OK, s')"
  using assms
  by (auto simp: writeVideoFrame_frame_def session_set_up_def video_checks_pass_def Let_def
      split: option.splits AVPixelFormat.splits)

lemma writeAudioFrame_frame_quotient:
  assumes "session_set_up s" and "audio_division_defined L len s"
  shows "\<exists>s'. writeAudioFrame_frame L pData len sampleTime s = Inr (S_OK, s') \<and>
              map_option fr_nb_samples (audioFrame s') = Some (len sdiv audio_divisor L s)"
  using assms
  by (auto simp: writeAudioFrame_frame_def session_set_up_def audio_division_defined_def
      audio_divisor_def Let_def split: option.splits)

lemma writeAudioFrame_zero_divisor_traps:
  assumes "isFormatContextCreated s" and "audioCodecContext s \<noteq> None"
    and "audio_divisor L s = 0"
  shows "writeAudioFrame L pData len sampleTime s = Some (Inl DivideError)"
  using assms
  by (auto simp: writeAudioFrame_def writeAudioFrame_frame_def wait_until_eq
      audio_divisor_def Let_def split: option.splits)

lemma session_set_up_ready: "session_set_up s \<Longrightarrow> wait_until (isFormatContextCreated s) = Some ()"
  by (simp add: session_set_up_def wait_until_eq)

lemma recording_session_set_up: "session_set_up recording_session"
  by (simp add: session_set_up_def recording_session_def streams_session_def
      video_session_def new_session_def)

lemma reach_zero_channel_streams:
  "createAudioContext good_lib 0 48000 16 1 4 video_session = Inr (S_OK, zero_channel_streams)"
  by (simp add: createAudioContext_def good_lib_def new_session_def video_session_def
      streams_session_def zero_channel_streams_def blank_context_def blank_frame_def Let_def)

lemma reach_zero_channel_session:
  "createFormatContext good_lib ''out.mkv'' zero_channel_streams
     = Some (Inr (S_OK, zero_channel_session))"
  by (simp add: createFormatContext_def createFormatContext_setup_def wait_until_eq
      good_lib_def new_session_def video_session_def zero_channel_streams_def
      zero_channel_session_def
      streams_session_def recording_session_def blank_context_def blank_frame_def
      blank_oformat_def blank_fmtContext_def blank_stream_def av_make_q_def FAILED_def
      AVFMT_GLOBALHEADER_def Let_def)

subsection \<open>The setup steps of the container\<close>

lemma createFormatContext_setup_result:
  assumes "videoCodecContext s \<noteq> None" and "audioCodecContext s \<noteq> None"
  shows "\<exists>r s'. createFormatContext_setup L fname s = Inr (r, s') \<and>
           r = (if all_steps_ok L then S_OK else E_FAIL) \<and>
           isFormatContextCreated s' = (isFormatContextCreated s \<or> all_steps_ok L) \<and>
           isCapturing s' = (isCapturing s \<or> all_steps_ok L) \<and>
           calls s' = calls s @ map step_call (steps_until_failure L)"
  using assms
  by (auto simp: createFormatContext_setup_def all_steps_ok_def steps_until_failure_def
      setup_steps_def Let_def split: option.splits)

lemma streams_session_facts:
  "isVideoContextCreated streams_session" "isAudioContextCreated streams_session"
  "videoCodecContext streams_session \<noteq> None" "audioCodecContext streams_session \<noteq> None"
  "\<not> isFormatContextCreated streams_session" "\<not> isCapturing streams_session"
  by (simp_all add: streams_session_def video_session_def new_session_def)

lemma createFormatContext_blocks:
  "\<not> (isVideoContextCreated s \<and> isAudioContextCreated s) \<Longrightarrow> createFormatContext L fname s = None"
  by (auto simp: createFormatContext_def wait_until_eq)

subsection \<open>Rounding error of a rescale\<close>

lemma round_div_error:
  fixes x c :: int
  assumes "0 < c"
  shows "2 * \<bar>((x + c div 2) div c) * c - x\<bar> \<le> c"
proof -
  define r where "r = (x + c div 2) mod c"
  have e: "((x + c div 2) div c) * c = x + c div 2 - r"
    unfolding r_def by (simp add: algebra_simps minus_mod_eq_mult_div [symmetric])
  have r: "0 \<le> r" "r < c" using assms by (simp_all add: r_def)
  have "2 * \<bar>c div 2 - r\<bar> \<le> c" using r by presburger
  then show ?thesis by (simp add: e)
qed

lemma av_rescale_near_error:
  assumes "0 \<le> b" and "0 < c"
  shows "2 * \<bar>av_rescale_near a b c * c - a * b\<bar> \<le> c"
proof (cases "0 \<le> a")
  case True
  show ?thesis
  proof (cases "a = 0")
    case True
    then show ?thesis using assms by (simp add: av_rescale_near_def)
  next
    case False
    with True have "sgn a = 1" "\<bar>a\<bar> = a" by simp_all
    then show ?thesis
      using round_div_error [OF assms(2), of "a * b"] by (simp add: av_rescale_near_def)
  qed
next
  case False
  then have s: "sgn a = - 1" "\<bar>a\<bar> = - a" by simp_all
  define y where "y = ((- a * b + c div 2) div c) * c - (- a * b)"
  have "av_rescale_near a b c * c - a * b = - y"
    by (simp add: y_def av_rescale_near_def s algebra_simps)
  then have "\<bar>av_rescale_near a b c * c - a * b\<bar> = \<bar>y\<bar>" by simp
  moreover have "2 * \<bar>y\<bar> \<le> c"
    unfolding y_def by (rule round_div_error [OF assms(2)])
  ultimately show ?thesis by simp
qed

lemma rescale_round_trip_error:
  assumes "0 < num tb" and "0 < den tb"
  shows "2 * den tb * \<bar>rescale_round_trip tb t - t\<bar> \<le> num tb * 10000000 + den tb"
proof -
  define b where "b = den tb"
  define c where "c = num tb * 10000000"
  define u where "u = av_rescale_near t b c"
  define t' where "t' = av_rescale_near u c b"
  have bc: "0 < b" "0 < c" using assms by (simp_all add: b_def c_def)
  have rt: "rescale_round_trip tb t = t'"
    by (simp add: rescale_round_trip_def av_rescale_q_def MF_TIME_BASE_def t'_def u_def
        b_def c_def mult.commute)
  have 1: "2 * \<bar>u * c - t * b\<bar> \<le> c"
    unfolding u_def using bc by (intro av_rescale_near_error) simp_all
  have 2: "2 * \<bar>t' * b - u * c\<bar> \<le> b"
    unfolding t'_def using bc by (intro av_rescale_near_error) simp_all
  have "\<bar>b * (t' - t)\<bar> = b * \<bar>t' - t\<bar>"
    using bc by (simp add: abs_mult)
  moreover have "b * (t' - t) = t' * b - t * b" by (simp add: algebra_simps)
  ultimately have "2 * b * \<bar>t' - t\<bar> = 2 * \<bar>t' * b - t * b\<bar>" by simp
  also have "\<dots> \<le> 2 * \<bar>t' * b - u * c\<bar> + 2 * \<bar>u * c - t * b\<bar>"
    using abs_triangle_ineq [of "t' * b - u * c" "u * c - t * b"] by simp
  also have "\<dots> \<le> b + c" using 1 2 by linarith
  finally show ?thesis by (simp add: rt b_def c_def add.commute)
qed

lemma int_cut:
  fixes k d n :: int
  assumes "k * d \<le> n" and "0 < k"
  shows "d \<le> n div k"
proof -
  from assms have "(k * d) div k \<le> n div k" by (rule zdiv_mono1)
  with assms(2) show ?thesis by simp
qed

subsection \<open>The finalize gate\<close>

text \<open>
  Claim C1. Take a session in which neither stream has finished and whose container
  context exists (the teardown dereferences it). Let \<open>finishVideo\<close> and \<open>finishAudio\<close>
  each be called once, in either order; concurrent calls are serialised by \<open>mxFinish\<close>
  into one of the two orders. Then both calls return \<open>S_OK\<close>. The first call makes no
  library call and leaves \<open>isCapturing\<close> and \<open>isSessionFinished\<close> as they were; it does
  not see both finished flags set. The second call sees both flags set, and the calls of
  the two together are exactly the teardown sequence, once: trailer, close of the output
  handle, close of both codecs, release of both codec contexts. Afterwards
  \<open>isCapturing\<close> is clear and \<open>isSessionFinished\<close> is set.
\<close>

theorem finalize_once:
  assumes "\<not> isVideoFinished s" and "\<not> isAudioFinished s" and "fmtContext s \<noteq> None"
    and "c1 \<noteq> c2"
  shows "\<exists>s1 s2.
           run_finish L c1 s = Inr (S_OK, s1) \<and> run_finish L c2 s1 = Inr (S_OK, s2) \<and>
           calls s1 = calls s \<and> isSessionFinished s1 = isSessionFinished s \<and>
           isCapturing s1 = isCapturing s \<and>
           \<not> (isVideoFinished s1 \<and> isAudioFinished s1) \<and>
           isVideoFinished s2 \<and> isAudioFinished s2 \<and>
           calls s2 = calls s @ teardown_calls \<and> isSessionFinished s2 \<and> \<not> isCapturing s2"
proof -
  from assms(3) obtain fc where fc: "fmtContext s = Some fc" by auto
  show ?thesis
  proof (cases c1)
    case FinishVideo
    with assms(4) have c2: "c2 = FinishAudio" by (cases c2) auto
    show ?thesis
      using assms(1,2) fc
      by (simp add: FinishVideo c2 finishVideo_def finishAudio_def endSession_def
          teardown_calls_def)
  next
    case FinishAudio
    with assms(4) have c2: "c2 = FinishVideo" by (cases c2) auto
    show ?thesis
      using assms(1,2) fc
      by (simp add: FinishAudio c2 finishVideo_def finishAudio_def endSession_def
          teardown_calls_def)
  qed
qed

theorem finalize_once_witness:
  "(\<exists>s1 s2. finishVideo good_lib recording_session = Inr (S_OK, s1) \<and>
            finishAudio good_lib s1 = Inr (S_OK, s2) \<and>
            calls s1 = calls recording_session \<and>
            calls s2 = calls recording_session @ teardown_calls \<and> isSessionFinished s2) \<and>
   (\<exists>s1 s2. finishAudio good_lib recording_session = Inr (S_OK, s1) \<and>
            finishVideo good_lib s1 = Inr (S_OK, s2) \<and>
            calls s1 = calls recording_session \<and>
            calls s2 = calls recording_session @ teardown_calls \<and> isSessionFinished s2)"
proof -
  have a: "\<not> isVideoFinished recording_session" "\<not> isAudioFinished recording_session"
    "fmtContext recording_session \<noteq> None"
    by (simp_all add: recording_session_def streams_session_def video_session_def
        new_session_def)
  have d: "FinishVideo \<noteq> FinishAudio" "FinishAudio \<noteq> FinishVideo" by simp_all
  show ?thesis
    using finalize_once [OF a(1,2,3) d(1), of good_lib]
      finalize_once [OF a(1,2,3) d(2), of good_lib]
    by simp blast
qed

subsection \<open>Teardown is repeated by a further call\<close>

text \<open>
  Claim C9. In every state in which both \<open>isVideoFinished\<close> and \<open>isAudioFinished\<close> are
  set and the container context exists, whatever the value of \<open>isSessionFinished\<close>, a
  call of \<open>endSession\<close>, of \<open>finishVideo\<close> or of \<open>finishAudio\<close> makes every library
  call of the teardown sequence again, clears \<open>isCapturing\<close> and sets
  \<open>isSessionFinished\<close>: nothing tests \<open>isSessionFinished\<close>.
\<close>

theorem endSession_repeats_teardown:
  assumes "isVideoFinished s" and "isAudioFinished s" and "fmtContext s \<noteq> None"
  shows "\<exists>s1 s2 s3.
           endSession L s = Inr (S_OK, s1) \<and> finishVideo L s = Inr (S_OK, s2) \<and>
           finishAudio L s = Inr (S_OK, s3) \<and>
           calls s1 = calls s @ teardown_calls \<and> calls s2 = calls s @ teardown_calls \<and>
           calls s3 = calls s @ teardown_calls \<and>
           isSessionFinished s1 \<and> isSessionFinished s2 \<and> isSessionFinished s3 \<and>
           \<not> isCapturing s1 \<and> \<not> isCapturing s2 \<and> \<not> isCapturing s3"
proof -
  from assms(3) obtain fc where fc: "fmtContext s = Some fc" by auto
  have e: "endSession L s =
     Inr (S_OK, s\<lparr>isCapturing := False, isSessionFinished := True,
                   calls := calls s @ teardown_calls\<rparr>)"
    using assms(1,2) fc by (rule endSession_gate_open)
  have v: "s\<lparr>isVideoFinished := True\<rparr> = s" using assms(1) by simp
  have a: "s\<lparr>isAudioFinished := True\<rparr> = s" using assms(2) by simp
  show ?thesis
    by (simp add: finishVideo_def finishAudio_def v a e)
qed

theorem endSession_repeats_teardown_witness:
  "isSessionFinished closed_session \<and>
   (\<exists>s1. endSession good_lib closed_session = Inr (S_OK, s1) \<and>
         calls s1 = calls recording_session @ teardown_calls @ teardown_calls)"
proof -
  have a: "isVideoFinished closed_session" "isAudioFinished closed_session"
    "fmtContext closed_session \<noteq> None"
    "calls closed_session = calls recording_session @ teardown_calls"
    "isSessionFinished closed_session"
    by (simp_all add: closed_session_def recording_session_def streams_session_def
        video_session_def new_session_def)
  show ?thesis
    using endSession_repeats_teardown [OF a(1,2,3), of good_lib]
    by (simp add: a(4,5)) blast
qed

subsection \<open>Audio context creation without the codec checks\<close>

text \<open>
  Claim C6. \<open>createAudioContext\<close> tests only the frame allocation. When the codec lookup
  returns null and the other two allocations succeed, the call returns \<open>S_OK\<close> and sets
  \<open>isAudioContextCreated\<close>, with \<open>audioCodec\<close> null. When the codec-context allocation
  returns null, the call dereferences the null pointer and does not return at all.
  \<open>createVideoContext\<close> tests all three results.
\<close>

theorem createAudioContext_missing_checks:
  "createAudioContext (good_lib\<lparr>find_encoder := (\<lambda>id. None)\<rparr>) 2 48000 16 1 4 video_session
     = Inr (S_OK, streams_session\<lparr>audioCodec := None\<rparr>) \<and>
   isAudioContextCreated (streams_session\<lparr>audioCodec := None\<rparr>) \<and>
   createAudioContext (good_lib\<lparr>alloc_context3 := None\<rparr>) 2 48000 16 1 4 video_session
     = Inl NullDeref"
  by (simp add: createAudioContext_def good_lib_def new_session_def video_session_def
      streams_session_def blank_context_def blank_frame_def Let_def)

subsection \<open>The conversion buffer on the frame-fill failure path\<close>

text \<open>
  Claim C5. A 4 by 2 ARGB frame of the right length, 32 bytes, is submitted to the
  recording session, and \<open>av_image_fill_arrays\<close> fails with \<open>-22\<close>. The call returns
  \<open>E_FAIL\<close> through \<open>RET_IF_FAILED\<close> after the conversion buffer has been allocated and
  filled, and the buffer is still allocated when the call returns: one live buffer where
  there was none. The unrecognised-format path and the normal path free the buffer.
\<close>

theorem writeVideoFrame_fill_failure_leaks:
  "writeVideoFrame (good_lib\<lparr>image_fill_arrays_ret := - 22\<rparr>) (replicate 32 0) 32 0
       recording_session
     = Some (Inr (E_FAIL,
         recording_session\<lparr>liveBuffers := 1,
            calls := calls recording_session @ [Call_memcpy_s, Call_av_image_fill_arrays]\<rparr>)) \<and>
   liveBuffers recording_session = 0"
  by (simp add: writeVideoFrame_def writeVideoFrame_frame_def wait_until_eq
      good_lib_def FAILED_def Let_def
      recording_session_def streams_session_def video_session_def new_session_def)

subsection \<open>Size validation of a video frame\<close>

text \<open>
  Claim C3. Once the container is ready, a call of \<open>writeVideoFrame\<close> whose length
  differs from the buffer size of the input pixel format and the frame dimensions returns
  \<open>E_FAIL\<close> and leaves the whole state as it was: no library call is made, nothing is
  encoded or written, no buffer is allocated. So the bad call followed by any other call
  of \<open>writeVideoFrame\<close> gives what that other call gives alone.
\<close>

theorem writeVideoFrame_rejects_wrong_length:
  assumes "isFormatContextCreated s"
    and "len \<noteq> image_get_buffer_size L (inputPixelFormat s) (sint (width s)) (sint (height s)) 1"
  shows "writeVideoFrame L pData len sampleTime s = Some (Inr (E_FAIL, s)) \<and>
         (case writeVideoFrame L pData len sampleTime s of
            Some (Inr (r, s')) \<Rightarrow> writeVideoFrame L' pData' len' sampleTime' s'
          | _ \<Rightarrow> None)
         = writeVideoFrame L' pData' len' sampleTime' s"
proof -
  have 1: "writeVideoFrame L pData len sampleTime s = Some (Inr (E_FAIL, s))"
    using assms by (simp add: writeVideoFrame_def writeVideoFrame_frame_def wait_until_eq)
  then show ?thesis by simp
qed

theorem writeVideoFrame_rejects_wrong_length_witness:
  "writeVideoFrame good_lib (replicate 31 0) 31 0 recording_session
     = Some (Inr (E_FAIL, recording_session)) \<and>
   (case writeVideoFrame good_lib (replicate 31 0) 31 0 recording_session of
      Some (Inr (r, s')) \<Rightarrow> writeVideoFrame good_lib (replicate 32 0) 32 333667 s'
    | _ \<Rightarrow> None)
   = writeVideoFrame good_lib (replicate 32 0) 32 333667 recording_session"
proof -
  have a: "isFormatContextCreated recording_session"
    by (rule recording_session_facts)
  have b: "31 \<noteq> image_get_buffer_size good_lib (inputPixelFormat recording_session)
             (sint (width recording_session)) (sint (height recording_session)) 1"
    by (simp add: recording_session_facts good_lib_def)
  show ?thesis
    using writeVideoFrame_rejects_wrong_length [OF a b] by blast
qed

subsection \<open>The video time base\<close>

text \<open>
  Claim C7, as stated, at the frame rate 30000/1001. \<open>createVideoContext\<close> succeeds and
  the time base of the video context is 1001/30000. The claim's pair, with the
  denominator of the frame interval as numerator and its numerator as denominator, is
  30000/1001: the two differ.
\<close>

theorem video_time_base_reciprocal_counterexample:
  "fst (createVideoContext good_lib 4 2 AV_PIX_FMT_ARGB 30000 1001 AV_PIX_FMT_YUV420P
          new_session) = S_OK \<and>
   map_option cc_time_base
     (videoCodecContext
        (snd (createVideoContext good_lib 4 2 AV_PIX_FMT_ARGB 30000 1001 AV_PIX_FMT_YUV420P
                new_session)))
     = Some \<lparr>num = 1001, den = 30000\<rparr> \<and>
   \<lparr>num = den (frame_interval 30000 1001), den = num (frame_interval 30000 1001)\<rparr>
     = \<lparr>num = 30000, den = 1001\<rparr> \<and>
   \<lparr>num = 1001, den = 30000\<rparr>
     \<noteq> \<lparr>num = den (frame_interval 30000 1001), den = num (frame_interval 30000 1001)\<rparr>"
  by (simp add: reach_video_session video_session_def frame_interval_def)

text \<open>
  Claim C7, amended. After \<open>createVideoContext\<close> succeeds, the time base of the video
  context is \<open>av_make_q(fps_den, fps_num)\<close>: its numerator is \<open>fps_den\<close> and its
  denominator is \<open>fps_num\<close>, so it is the frame interval of the declared frame rate
  itself, numerator to numerator and denominator to denominator. When
  \<open>createFormatContext\<close> then succeeds on a session with this video context, the time
  base of the video stream is that same rational.
\<close>

theorem video_time_base_is_frame_interval:
  assumes "createVideoContext L w h inFmt fps_num fps_den outFmt s = (S_OK, s1)"
  shows "\<exists>c. videoCodecContext s1 = Some c \<and>
             cc_time_base c = frame_interval fps_num fps_den \<and>
             num (cc_time_base c) = sint fps_den \<and> den (cc_time_base c) = sint fps_num \<and>
             (videoCodecContext s2 = Some c \<longrightarrow>
              createFormatContext L' fname s2 = Some (Inr (S_OK, s3)) \<longrightarrow>
              (\<exists>vs. videoStream s3 = Some vs \<and>
                    st_time_base vs = frame_interval fps_num fps_den))"
proof -
  from createVideoContext_S_OK [OF assms] obtain c where
    c: "videoCodecContext s1 = Some c" "cc_time_base c = av_make_q (sint fps_den) (sint fps_num)"
    by blast
  have fi: "cc_time_base c = frame_interval fps_num fps_den"
    by (simp add: c(2) av_make_q_def frame_interval_def)
  have "\<exists>vs. videoStream s3 = Some vs \<and> st_time_base vs = frame_interval fps_num fps_den"
    if a: "videoCodecContext s2 = Some c"
      and b: "createFormatContext L' fname s2 = Some (Inr (S_OK, s3))"
  proof -
    from createFormatContext_Some [OF b]
    have "createFormatContext_setup L' fname s2 = Inr (S_OK, s3)" by simp
    from createFormatContext_setup_S_OK_stream [OF this] a fi show ?thesis by auto
  qed
  with c(1) fi show ?thesis
    by (auto simp: frame_interval_def)
qed

theorem video_time_base_is_frame_interval_witness:
  "\<exists>c. videoCodecContext video_session = Some c \<and>
       cc_time_base c = \<lparr>num = 1001, den = 30000\<rparr> \<and>
       videoCodecContext streams_session = Some c \<and>
       createFormatContext good_lib ''out.mkv'' streams_session
         = Some (Inr (S_OK, recording_session)) \<and>
       (\<exists>vs. videoStream recording_session = Some vs \<and>
             st_time_base vs = \<lparr>num = 1001, den = 30000\<rparr>)"
proof -
  have e: "videoCodecContext streams_session = videoCodecContext video_session"
    by (simp add: streams_session_def)
  show ?thesis
    using video_time_base_is_frame_interval [OF reach_video_session,
        of streams_session good_lib "''out.mkv''" recording_session]
      reach_recording_session e
    by (auto simp: frame_interval_def)
qed

subsection \<open>Encode and write failures are not reported\<close>

text \<open>
  Claim C10. Take a session that has been set up. Whenever the three checks of
  \<open>writeVideoFrame\<close> pass, the call returns \<open>S_OK\<close>; whenever the division of
  \<open>writeAudioFrame\<close> is defined, that call returns \<open>S_OK\<close>. This holds for every value
  \<open>e\<close> the encoder returns, every value \<open>g\<close> of \<open>got_packet\<close> and every value \<open>w\<close>
  \<open>av_interleaved_write_frame\<close> returns: neither an encoder failure nor a write failure
  reaches the caller.
\<close>

theorem frame_calls_return_S_OK:
  assumes "session_set_up s"
  shows "(video_checks_pass L len s \<longrightarrow>
            (\<exists>s'. writeVideoFrame
                    (L\<lparr>encode_video_ret := e, got_packet_video := g,
                       interleaved_write_ret := w\<rparr>) pData len sampleTime s
                   = Some (Inr (S_OK, s')))) \<and>
         (audio_division_defined L len s \<longrightarrow>
            (\<exists>s'. writeAudioFrame
                    (L\<lparr>encode_audio_ret := e, got_packet_audio := g,
                       interleaved_write_ret := w\<rparr>) pData len sampleTime s
                   = Some (Inr (S_OK, s'))))"
proof (intro conjI impI)
  let ?Lv = "L\<lparr>encode_video_ret := e, got_packet_video := g, interleaved_write_ret := w\<rparr>"
  assume "video_checks_pass L len s"
  then have "video_checks_pass ?Lv len s" by (simp add: video_checks_pass_def)
  from writeVideoFrame_frame_S_OK [OF assms this]
  show "\<exists>s'. writeVideoFrame ?Lv pData len sampleTime s = Some (Inr (S_OK, s'))"
    by (simp add: writeVideoFrame_def session_set_up_ready [OF assms])
next
  let ?La = "L\<lparr>encode_audio_ret := e, got_packet_audio := g, interleaved_write_ret := w\<rparr>"
  assume "audio_division_defined L len s"
  then have "audio_division_defined ?La len s"
    by (simp add: audio_division_defined_def audio_divisor_def split: option.splits)
  from writeAudioFrame_frame_quotient [OF assms this]
  show "\<exists>s'. writeAudioFrame ?La pData len sampleTime s = Some (Inr (S_OK, s'))"
    by (auto simp: writeAudioFrame_def session_set_up_ready [OF assms])
qed

theorem frame_calls_return_S_OK_witness:
  "session_set_up recording_session \<and> video_checks_pass good_lib 32 recording_session \<and>
   audio_division_defined good_lib 32 recording_session \<and>
   (\<exists>s'. writeVideoFrame
           (good_lib\<lparr>encode_video_ret := - 1, got_packet_video := 1,
                     interleaved_write_ret := - 1\<rparr>) (replicate 32 0) 32 0 recording_session
          = Some (Inr (S_OK, s'))) \<and>
   (\<exists>s'. writeAudioFrame
           (good_lib\<lparr>encode_audio_ret := - 1, got_packet_audio := 1,
                     interleaved_write_ret := - 1\<rparr>) (replicate 32 0) 32 0 recording_session
          = Some (Inr (S_OK, s')))"
proof -
  have v: "video_checks_pass good_lib 32 recording_session"
    by (simp add: video_checks_pass_def recording_session_facts good_lib_def FAILED_def)
  have a: "audio_division_defined good_lib 32 recording_session"
    by (simp add: audio_division_defined_def audio_divisor_def good_lib_def
        recording_session_def streams_session_def video_session_def new_session_def)
  show ?thesis
    using frame_calls_return_S_OK [OF recording_session_set_up, of good_lib 32 "- 1" 1 "- 1"
        "replicate 32 0" 0] v a recording_session_set_up
    by simp
qed

subsection \<open>The sample count of an audio frame\<close>

text \<open>
  Claim C4. \<open>writeAudioFrame\<close> has no guard before the division of line 218: whatever
  \<open>av_samples_get_buffer_size\<close> returns is the divisor. The audio context of the session
  below was created with a channel count of 0, for which the library answers the error
  code \<open>-22\<close>. The call divides the length 4096 by \<open>-22\<close>, stores the quotient
  \<open>-186\<close> as the sample count of the frame, encodes, writes and returns \<open>S_OK\<close>.
  \<open>writeVideoFrame\<close> tests its length against the size the library computes and returns
  \<open>E_FAIL\<close>; \<open>writeAudioFrame\<close> tests nothing. (By the lemma
  \<open>writeAudioFrame_zero_divisor_traps\<close> a divisor of zero reaches the division as well.)
\<close>

theorem writeAudioFrame_divides_by_error_code:
  "audio_divisor good_lib zero_channel_session = - 22 \<and>
   writeAudioFrame good_lib (replicate 4096 0) 4096 0 zero_channel_session
     = Some (Inr (S_OK,
         zero_channel_session
           \<lparr>audioFrame :=
              Some (blank_frame\<lparr>fr_format := SampleFmt 1, fr_sample_rate := 48000,
                                  fr_channels := 0, fr_nb_samples := - 186,
                                  fr_pts := AV_NOPTS_VALUE\<rparr>),
            calls := calls zero_channel_session @
              [Call_avcodec_fill_audio_frame, Call_av_init_packet, Call_avcodec_encode_audio2,
               Call_av_interleaved_write_frame 1, Call_av_free_packet,
               Call_av_packet_unref]\<rparr>)) \<and>
   4096 sdiv (- 22 :: int) = - 186"
  by (simp add: writeAudioFrame_def writeAudioFrame_frame_def wait_until_eq audio_divisor_def
      good_lib_def zero_channel_session_def zero_channel_streams_def recording_session_def
      streams_session_def video_session_def new_session_def blank_frame_def blank_stream_def
      signed_divide_int_def Let_def)

subsection \<open>Container readiness\<close>

text \<open>
  Claim C2. Take a session in which both stream contexts have been created, so that
  \<open>createFormatContext\<close> passes its two waits and finds the two codec contexts. The call
  returns. It returns \<open>S_OK\<close> when every setup step up to and including the header write
  succeeds and \<open>E_FAIL\<close> otherwise. \<open>isFormatContextCreated\<close> and \<open>isCapturing\<close> are
  set by the call exactly when every step succeeds; when a step fails both flags keep the
  value they had. The library calls of the call are the setup steps in source order up to
  and including the first one that fails, and none after it.
\<close>

theorem createFormatContext_ready_only_after_header:
  assumes "isVideoContextCreated s" and "isAudioContextCreated s"
    and "videoCodecContext s \<noteq> None" and "audioCodecContext s \<noteq> None"
  shows "\<exists>r s'. createFormatContext L fname s = Some (Inr (r, s')) \<and>
           r = (if all_steps_ok L then S_OK else E_FAIL) \<and>
           isFormatContextCreated s' = (isFormatContextCreated s \<or> all_steps_ok L) \<and>
           isCapturing s' = (isCapturing s \<or> all_steps_ok L) \<and>
           calls s' = calls s @ map step_call (steps_until_failure L)"
proof -
  have "createFormatContext L fname s = Some (createFormatContext_setup L fname s)"
    using assms(1,2) by (simp add: createFormatContext_def wait_until_eq)
  with createFormatContext_setup_result [OF assms(3,4), of L fname] show ?thesis
    by simp
qed

theorem createFormatContext_ready_only_after_header_witness:
  "(\<exists>s'. createFormatContext (good_lib\<lparr>avio_open_ret := - 2\<rparr>) ''out.mkv'' streams_session
           = Some (Inr (E_FAIL, s')) \<and>
         \<not> isFormatContextCreated s' \<and> \<not> isCapturing s' \<and>
         calls s' = calls streams_session @
           [Call_av_guess_format, Call_avformat_alloc_output_context2,
            Call_avformat_new_stream AVMEDIA_TYPE_VIDEO,
            Call_avformat_new_stream AVMEDIA_TYPE_AUDIO,
            Call_avcodec_open2 AVMEDIA_TYPE_VIDEO, Call_avcodec_open2 AVMEDIA_TYPE_AUDIO,
            Call_avio_open]) \<and>
   (\<exists>s'. createFormatContext good_lib ''out.mkv'' streams_session = Some (Inr (S_OK, s')) \<and>
         isFormatContextCreated s' \<and> isCapturing s' \<and>
         calls s' = calls streams_session @ map step_call setup_steps)"
proof -
  have bad: "\<not> all_steps_ok (good_lib\<lparr>avio_open_ret := - 2\<rparr>)"
    "map step_call (steps_until_failure (good_lib\<lparr>avio_open_ret := - 2\<rparr>)) =
       [Call_av_guess_format, Call_avformat_alloc_output_context2,
        Call_avformat_new_stream AVMEDIA_TYPE_VIDEO,
        Call_avformat_new_stream AVMEDIA_TYPE_AUDIO,
        Call_avcodec_open2 AVMEDIA_TYPE_VIDEO, Call_avcodec_open2 AVMEDIA_TYPE_AUDIO,
        Call_avio_open]"
    by (simp_all add: all_steps_ok_def steps_until_failure_def setup_steps_def good_lib_def
        FAILED_def)
  have good: "all_steps_ok good_lib" "steps_until_failure good_lib = setup_steps"
    by (simp_all add: all_steps_ok_def steps_until_failure_def setup_steps_def good_lib_def
        FAILED_def)
  show ?thesis
    using createFormatContext_ready_only_after_header [OF streams_session_facts(1-4),
        of "good_lib\<lparr>avio_open_ret := - 2\<rparr>" "''out.mkv''"]
      createFormatContext_ready_only_after_header [OF streams_session_facts(1-4),
        of good_lib "''out.mkv''"]
    by (simp add: bad good streams_session_facts(5,6))
qed

subsection \<open>Round trip of a rescaled timestamp\<close>

text \<open>
  Claim C8, as stated, at the timestamp of 100000 ticks (10 ms). The video time bases of
  the frame rates 30000/1001, 60/1 and 24/1 are 1001/30000, 1/60 and 1/24 of a second.
  Rescaled to these and back, 100000 ticks become 0, 166667 and 0 ticks: none is within
  one tick of the original.
\<close>

theorem rescale_round_trip_not_within_one_tick:
  "rescale_round_trip (frame_interval 30000 1001) 100000 = 0 \<and>
   rescale_round_trip (frame_interval 60 1) 100000 = 166667 \<and>
   rescale_round_trip (frame_interval 24 1) 100000 = 0 \<and>
   \<not> \<bar>rescale_round_trip (frame_interval 30000 1001) 100000 - 100000\<bar> \<le> 1 \<and>
   \<not> \<bar>rescale_round_trip (frame_interval 60 1) 100000 - 100000\<bar> \<le> 1 \<and>
   \<not> \<bar>rescale_round_trip (frame_interval 24 1) 100000 - 100000\<bar> \<le> 1"
  by (simp add: rescale_round_trip_def av_rescale_q_def av_rescale_near_def MF_TIME_BASE_def
      frame_interval_def)

text \<open>
  Claim C8, amended. For every timestamp in ticks, positive or negative, rescaling to the
  video time base and back yields a value within half a frame interval of the original:
  at most 166833 ticks away for the frame rate 30000/1001, at most 83333 ticks for 60/1
  and at most 208333 ticks for 24/1. (The lemma \<open>rescale_round_trip_error\<close> gives the
  bound for every time base with positive numerator and denominator.)
\<close>

theorem rescale_round_trip_within_half_frame:
  "\<bar>rescale_round_trip (frame_interval 30000 1001) t - t\<bar> \<le> 166833 \<and>
   \<bar>rescale_round_trip (frame_interval 60 1) t - t\<bar> \<le> 83333 \<and>
   \<bar>rescale_round_trip (frame_interval 24 1) t - t\<bar> \<le> 208333"
proof -
  have a: "2 * 30000 * \<bar>rescale_round_trip (frame_interval 30000 1001) t - t\<bar>
             \<le> 1001 * 10000000 + 30000"
    using rescale_round_trip_error [of "frame_interval 30000 1001" t]
    by (simp add: frame_interval_def)
  have b: "2 * 60 * \<bar>rescale_round_trip (frame_interval 60 1) t - t\<bar> \<le> 1 * 10000000 + 60"
    using rescale_round_trip_error [of "frame_interval 60 1" t]
    by (simp add: frame_interval_def)
  have c: "2 * 24 * \<bar>rescale_round_trip (frame_interval 24 1) t - t\<bar> \<le> 1 * 10000000 + 24"
    using rescale_round_trip_error [of "frame_interval 24 1" t]
    by (simp add: frame_interval_def)
  from int_cut [OF a]
  have a': "\<bar>rescale_round_trip (frame_interval 30000 1001) t - t\<bar> \<le> 166833"
    by simp
  from int_cut [OF b]
  have b': "\<bar>rescale_round_trip (frame_interval 60 1) t - t\<bar> \<le> 83333"
    by simp
  from int_cut [OF c]
  have c': "\<bar>rescale_round_trip (frame_interval 24 1) t - t\<bar> \<le> 208333"
    by simp
  from a' b' c' show ?thesis by simp
qed

end
